theory Spec2Isabelle
  imports Complex_Main
begin

section \<open>Constants (sentinel/constants.py)\<close>

text \<open>
  Time stamps are the readings of \<^verbatim>\<open>time.time()\<close>. They are modelled as real numbers:
  the comparisons of the source are kept as written, the rounding of the float
  subtraction is not modelled.
\<close>

definition MIN_CONTOUR_AREA :: real where
  "MIN_CONTOUR_AREA = 700"

definition MOTION_TIMEOUT :: real where
  "MOTION_TIMEOUT = 10"

definition VIDEO_DIR :: string where
  "VIDEO_DIR = ''recorded_videos''"

definition RECORDING_DURATION :: real where
  "RECORDING_DURATION = 10"

definition RECORDING_FPS :: nat where
  "RECORDING_FPS = 20"

definition VIDEO_CODEC :: string where
  "VIDEO_CODEC = ''XVID''"

definition MOTION_COOLDOWN :: real where
  "MOTION_COOLDOWN = 2"

section \<open>Data of the motion detector (sentinel/detection/motion_detector.py)\<close>

type_synonym rect = "int \<times> int \<times> int \<times> int"

text \<open>What the tick draws on the display frame: cv2.rectangle and cv2.putText per motion
  region, the REC text with the remaining time, and the red circle.\<close>

datatype overlay =
    MotionBox rect
  | MotionLabel int int
  | RecText real
  | RecDot

record frame =
  f_height :: nat
  f_width :: nat
  overlays :: "overlay list"

text \<open>The cv2.VideoWriter handle, with the arguments it was constructed from.\<close>

record writer =
  vw_path :: string
  vw_fourcc :: string
  vw_fps :: nat
  vw_frame_size :: "nat \<times> nat"
  vw_is_color :: bool

text \<open>The cv2.VideoCapture handle: \<open>cap_opened\<close> is what isOpened() answers.\<close>

record capture =
  cap_index :: int
  cap_opened :: bool

text \<open>The fields of a MotionDetector instance. The background subtractor \<open>fgbg\<close> is
  opaque library state; what it and findContours produce on a tick is an input of the
  tick (see \<open>tick_env\<close>).\<close>

record motion_detector =
  cap :: "capture option"
  camera_index :: int
  feed_active :: bool
  video_writer :: "writer option"
  recording :: bool
  recording_enabled :: bool
  recording_start_time :: real
  last_motion_time :: real
  frames_recorded :: nat
  motion_cooldown :: real

datatype recording_status = Started | Recording | Stopped

datatype exn = RuntimeError string | LibraryError

text \<open>What the outside world answers during one call of check_recording_status: the clock
  readings in the order the source takes them, and whether the library calls raise.\<close>

record rec_env =
  now :: real
  timestamp :: string
  open_raises :: bool
  start_now :: real
  write_raises :: bool
  write_now :: real
  release_raises :: bool

definition init :: motion_detector where
  "init = \<lparr>cap = None, camera_index = 0, feed_active = False, video_writer = None,
     recording = False, recording_enabled = True, recording_start_time = 0,
     last_motion_time = 0, frames_recorded = 0, motion_cooldown = MOTION_COOLDOWN\<rparr>"

section \<open>The recording state machine\<close>

text \<open>start_recording: returns the path (None on the bare return and in the handler).\<close>

definition start_recording ::
  "rec_env \<Rightarrow> nat \<times> nat \<Rightarrow> motion_detector \<Rightarrow> string option \<times> motion_detector" where
  "start_recording e frame_size s =
     (if recording s then (None, s)
      else if open_raises e then (None, s\<lparr>video_writer := None, recording := False\<rparr>)
      else
        let video_path = VIDEO_DIR @ ''/'' @ ''motion_'' @ timestamp e @ ''.avi'' in
        (Some video_path,
         s\<lparr>video_writer := Some \<lparr>vw_path = video_path, vw_fourcc = VIDEO_CODEC,
              vw_fps = RECORDING_FPS, vw_frame_size = frame_size, vw_is_color = True\<rparr>,
           recording := True,
           recording_start_time := start_now e,
           frames_recorded := 0\<rparr>))"

text \<open>stop_recording: None is the bare return, Some True the released writer, Some False
  the handler.\<close>

definition stop_recording :: "rec_env \<Rightarrow> motion_detector \<Rightarrow> bool option \<times> motion_detector" where
  "stop_recording e s =
     (if \<not> recording s \<or> video_writer s = None then (None, s)
      else if release_raises e then (Some False, s\<lparr>video_writer := None, recording := False\<rparr>)
      else (Some True, s\<lparr>video_writer := None, recording := False\<rparr>))"

definition write_frame :: "rec_env \<Rightarrow> frame \<Rightarrow> motion_detector \<Rightarrow> bool \<times> motion_detector" where
  "write_frame e fr s =
     (if \<not> recording s \<or> video_writer s = None then (False, s)
      else if write_raises e then (False, s)
      else
        let s1 = s\<lparr>frames_recorded := frames_recorded s + 1\<rparr> in
        if write_now e - recording_start_time s1 \<ge> RECORDING_DURATION
        then (True, snd (stop_recording e s1))
        else (True, s1))"

text \<open>Python's truth value of the path returned by start_recording.\<close>

definition truthy :: "string option \<Rightarrow> bool" where
  "truthy p = (case p of None \<Rightarrow> False | Some x \<Rightarrow> x \<noteq> [])"

text \<open>The part of check_recording_status after the enabled checks and the start attempt:
  write the frame when recording.\<close>

definition continue_recording ::
  "rec_env \<Rightarrow> bool \<Rightarrow> frame \<Rightarrow> motion_detector
    \<Rightarrow> (recording_status option \<times> string option) \<times> motion_detector" where
  "continue_recording e motion_detected fr s =
     (if recording s then
        let s1 = snd (write_frame e fr s);
            s2 = (if motion_detected then s1\<lparr>last_motion_time := now e\<rparr> else s1)
        in ((Some Recording, None), s2)
      else ((None, None), s))"

definition check_recording_status ::
  "rec_env \<Rightarrow> bool \<Rightarrow> frame \<Rightarrow> motion_detector
    \<Rightarrow> (recording_status option \<times> string option) \<times> motion_detector" where
  "check_recording_status e motion_detected fr s =
     (if \<not> recording_enabled s \<and> recording s then
        ((Some Stopped, None), snd (stop_recording e s))
      else if \<not> recording_enabled s then ((None, None), s)
      else if motion_detected \<and> \<not> recording s then
        (if now e - last_motion_time s \<ge> motion_cooldown s then
           let s1 = s\<lparr>last_motion_time := now e\<rparr>;
               (video_path, s2) = start_recording e (f_width fr, f_height fr) s1
           in if truthy video_path then ((Some Started, video_path), s2)
              else continue_recording e motion_detected fr s2
         else continue_recording e motion_detected fr s)
      else continue_recording e motion_detected fr s)"

text \<open>A run of ticks of the state machine: the status of each call, and the final state.\<close>

fun run_checks ::
  "motion_detector \<Rightarrow> (rec_env \<times> bool \<times> frame) list
    \<Rightarrow> recording_status option list \<times> motion_detector" where
  "run_checks s [] = ([], s)"
| "run_checks s ((e, motion_detected, fr) # ticks) =
     (let (r, s1) = check_recording_status e motion_detected fr s;
          (rs, s2) = run_checks s1 ticks
      in (fst r # rs, s2))"

section \<open>Camera handle and shutdown\<close>

definition stop_camera :: "motion_detector \<Rightarrow> motion_detector" where
  "stop_camera s =
     (let s1 = s\<lparr>feed_active := False\<rparr> in
      case cap s1 of None \<Rightarrow> s1 | Some c \<Rightarrow> s1\<lparr>cap := None\<rparr>)"

text \<open>The class body defines \<^verbatim>\<open>cleanup\<close> twice. The first definition (after detect_motion)
  stops the recording and then the camera:\<close>

definition cleanup_first :: "rec_env \<Rightarrow> motion_detector \<Rightarrow> motion_detector" where
  "cleanup_first e s =
     (let s1 = (if recording s then snd (stop_recording e s) else s) in stop_camera s1)"

text \<open>The second definition (after capture_image) replaces the first in the class
  namespace, so it is the method that \<^verbatim>\<open>detector.cleanup()\<close> calls:\<close>

definition cleanup :: "motion_detector \<Rightarrow> motion_detector" where
  "cleanup s = stop_camera s"

section \<open>One tick of the capture pipeline: detect_motion\<close>

text \<open>What the outside world answers during one tick: the frame read from the camera, the
  contours that the vision pipeline (copy, cvtColor, GaussianBlur, MOG2, dilate,
  findContours) finds in it, cv2.contourArea and cv2.boundingRect on those contours,
  whether drawing raises, the answers for check_recording_status, and the clock reading
  for the REC overlay.\<close>

record 'c tick_env =
  read_result :: "exn + bool \<times> frame"
  contours_result :: "exn + 'c list"
  contourArea :: "'c \<Rightarrow> real"
  boundingRect :: "'c \<Rightarrow> rect"
  annotate_raises :: "'c \<Rightarrow> bool"
  rec_world :: rec_env
  overlay_now :: real
  overlay_raises :: bool

type_synonym detection_result = "frame option \<times> rect list \<times> bool \<times> recording_status option"

text \<open>The loop over the contours, with the display frame, motion_rects and motion_detected
  as its variables.\<close>

fun filter_contours ::
  "'c tick_env \<Rightarrow> 'c list \<Rightarrow> frame \<times> rect list \<times> bool \<Rightarrow> exn + frame \<times> rect list \<times> bool" where
  "filter_contours env [] acc = Inr acc"
| "filter_contours env (contour # contours) (fr, motion_rects, motion_detected) =
     (if contourArea env contour < MIN_CONTOUR_AREA
      then filter_contours env contours (fr, motion_rects, motion_detected)
      else
        let (x, y, w, h) = boundingRect env contour in
        if annotate_raises env contour then Inl LibraryError
        else filter_contours env contours
          (fr\<lparr>overlays := overlays fr @ [MotionBox (x, y, w, h), MotionLabel x (y - 10)]\<rparr>,
           motion_rects @ [(x, y, w, h)],
           True))"

text \<open>The body of the try block: Inl is a raised exception. The state is returned in both
  cases, since check_recording_status may have changed it before a later step raises.\<close>

definition detect_motion_body ::
  "'c tick_env \<Rightarrow> motion_detector \<Rightarrow> (exn + detection_result) \<times> motion_detector" where
  "detect_motion_body env s =
     (case read_result env of
        Inl x \<Rightarrow> (Inl x, s)
      | Inr (ret, original_frame) \<Rightarrow>
          if \<not> ret then (Inl (RuntimeError ''Failed to read frame from camera''), s)
          else
            (case contours_result env of
               Inl x \<Rightarrow> (Inl x, s)
             | Inr contours \<Rightarrow>
                 (case filter_contours env contours (original_frame, [], False) of
                    Inl x \<Rightarrow> (Inl x, s)
                  | Inr (fr, motion_rects, motion_detected) \<Rightarrow>
                      let (r, s1) = check_recording_status (rec_world env) motion_detected
                                      original_frame s;
                          recording_status = fst r
                      in
                        if recording s1 then
                          let elapsed_time = overlay_now env - recording_start_time s1;
                              remaining_time = max 0 (RECORDING_DURATION - elapsed_time)
                          in
                            if overlay_raises env then (Inl LibraryError, s1)
                            else
                              (Inr (Some (fr\<lparr>overlays := overlays fr
                                            @ [RecText remaining_time, RecDot]\<rparr>),
                                    motion_rects, motion_detected, recording_status), s1)
                        else (Inr (Some fr, motion_rects, motion_detected, recording_status),
                              s1))))"

definition detect_motion ::
  "'c tick_env \<Rightarrow> motion_detector \<Rightarrow> detection_result \<times> motion_detector" where
  "detect_motion env s =
     (if \<not> feed_active s \<or> (case cap s of None \<Rightarrow> True | Some c \<Rightarrow> \<not> cap_opened c)
      then ((None, [], False, None), s)
      else
        (case detect_motion_body env s of
           (Inl x, s1) \<Rightarrow> ((None, [], False, None), s1)
         | (Inr result, s1) \<Rightarrow> (result, s1)))"

section \<open>The alert gate (sentinel/audio/alert_system.py)\<close>

text \<open>The pyttsx3 engine with the properties the constructor sets; \<open>tts_engine\<close> is None when
  the engine failed to initialise.\<close>

record tts =
  tts_rate :: int
  tts_volume :: real
  tts_voice :: string

record audio_alert_system =
  last_alert_time :: real
  tts_engine :: "tts option"

record alert_env =
  alert_now :: real
  say_raises :: bool

definition trigger_alert ::
  "alert_env \<Rightarrow> string \<Rightarrow> audio_alert_system \<Rightarrow> bool \<times> audio_alert_system" where
  "trigger_alert e message a =
     (let current_time = alert_now e in
      if tts_engine a = None \<or> current_time - last_alert_time a \<le> MOTION_TIMEOUT
      then (False, a)
      else if say_raises e then (False, a)
      else (True, a\<lparr>last_alert_time := current_time\<rparr>))"

section \<open>Concrete inputs used by the examples\<close>

text \<open>A tick at clock reading \<open>t\<close> in which no library call raises.\<close>

definition quiet_env :: "real \<Rightarrow> rec_env" where
  "quiet_env t = \<lparr>now = t, timestamp = ''20240101_120000'', open_raises = False,
     start_now = t, write_raises = False, write_now = t, release_raises = False\<rparr>"

text \<open>The same tick, with the VideoWriter construction raising.\<close>

definition failing_open_env :: "real \<Rightarrow> rec_env" where
  "failing_open_env t = (quiet_env t)\<lparr>open_raises := True\<rparr>"

definition vga_frame :: frame where
  "vga_frame = \<lparr>f_height = 480, f_width = 640, overlays = []\<rparr>"

definition avi_writer :: writer where
  "avi_writer = \<lparr>vw_path = ''recorded_videos/motion_20240101_120000.avi'',
     vw_fourcc = ''XVID'', vw_fps = 20, vw_frame_size = (640, 480), vw_is_color = True\<rparr>"

text \<open>A detector with a running camera and a session opened at clock reading \<open>t\<close>.\<close>

definition open_session :: "real \<Rightarrow> motion_detector" where
  "open_session t = init\<lparr>cap := Some \<lparr>cap_index = 0, cap_opened = True\<rparr>, feed_active := True,
     video_writer := Some avi_writer, recording := True,
     recording_start_time := t, last_motion_time := t\<rparr>"

text \<open>A detector with a running camera and no session.\<close>

definition idle_detector :: motion_detector where
  "idle_detector = init\<lparr>cap := Some \<lparr>cap_index = 0, cap_opened = True\<rparr>, feed_active := True\<rparr>"

text \<open>Contours given by their area and bounding rectangle.\<close>

definition sample_tick :: "real \<Rightarrow> (real \<times> rect) list \<Rightarrow> (real \<times> rect) tick_env" where
  "sample_tick t cs = \<lparr>read_result = Inr (True, vga_frame), contours_result = Inr cs,
     contourArea = fst, boundingRect = snd, annotate_raises = (\<lambda>c. False),
     rec_world = quiet_env t, overlay_now = t, overlay_raises = False\<rparr>"

definition working_alerts :: "real \<Rightarrow> audio_alert_system" where
  "working_alerts t = \<lparr>last_alert_time = t,
     tts_engine = Some \<lparr>tts_rate = 150, tts_volume = 1, tts_voice = ''default''\<rparr>\<rparr>"

definition silent_alerts :: "real \<Rightarrow> audio_alert_system" where
  "silent_alerts t = \<lparr>last_alert_time = t, tts_engine = None\<rparr>"

section \<open>Single steps of the state machine\<close>

text \<open>Each lemma evaluates check_recording_status on one branch of the source.\<close>

lemma check_disabled_open:
  "\<not> recording_enabled s \<Longrightarrow> recording s \<Longrightarrow> video_writer s \<noteq> None \<Longrightarrow>
   check_recording_status e md fr s =
     ((Some Stopped, None), s\<lparr>video_writer := None, recording := False\<rparr>)"
  by (simp add: check_recording_status_def stop_recording_def)

lemma check_disabled_idle:
  "\<not> recording_enabled s \<Longrightarrow> \<not> recording s \<Longrightarrow>
   check_recording_status e md fr s = ((None, None), s)"
  by (simp add: check_recording_status_def)

lemma check_open_continue:
  "recording_enabled s \<Longrightarrow> recording s \<Longrightarrow> video_writer s \<noteq> None \<Longrightarrow> \<not> write_raises e \<Longrightarrow>
   write_now e - recording_start_time s < RECORDING_DURATION \<Longrightarrow>
   check_recording_status e md fr s =
     ((Some Recording, None),
      (if md then s\<lparr>frames_recorded := frames_recorded s + 1, last_motion_time := now e\<rparr>
       else s\<lparr>frames_recorded := frames_recorded s + 1\<rparr>))"
  by (simp add: check_recording_status_def continue_recording_def write_frame_def Let_def)

lemma check_open_write_raises:
  "recording_enabled s \<Longrightarrow> recording s \<Longrightarrow> video_writer s \<noteq> None \<Longrightarrow> write_raises e \<Longrightarrow>
   check_recording_status e md fr s =
     ((Some Recording, None), (if md then s\<lparr>last_motion_time := now e\<rparr> else s))"
  by (simp add: check_recording_status_def continue_recording_def write_frame_def Let_def)

lemma check_open_expire:
  "recording_enabled s \<Longrightarrow> recording s \<Longrightarrow> video_writer s \<noteq> None \<Longrightarrow> \<not> write_raises e \<Longrightarrow>
   write_now e - recording_start_time s \<ge> RECORDING_DURATION \<Longrightarrow>
   check_recording_status e md fr s =
     ((Some Recording, None),
      (if md then s\<lparr>frames_recorded := frames_recorded s + 1, video_writer := None,
                    recording := False, last_motion_time := now e\<rparr>
       else s\<lparr>frames_recorded := frames_recorded s + 1, video_writer := None,
                recording := False\<rparr>))"
  by (simp add: check_recording_status_def continue_recording_def write_frame_def
      stop_recording_def Let_def)

lemma check_idle_blocked:
  "recording_enabled s \<Longrightarrow> \<not> recording s \<Longrightarrow>
   (md \<Longrightarrow> now e - last_motion_time s < motion_cooldown s) \<Longrightarrow>
   check_recording_status e md fr s = ((None, None), s)"
  by (auto simp add: check_recording_status_def continue_recording_def)

lemma check_start_ok:
  "recording_enabled s \<Longrightarrow> \<not> recording s \<Longrightarrow>
   now e - last_motion_time s \<ge> motion_cooldown s \<Longrightarrow> \<not> open_raises e \<Longrightarrow>
   check_recording_status e True fr s =
     ((Some Started, Some (VIDEO_DIR @ ''/'' @ ''motion_'' @ timestamp e @ ''.avi'')),
      s\<lparr>last_motion_time := now e,
        video_writer := Some \<lparr>vw_path = VIDEO_DIR @ ''/'' @ ''motion_'' @ timestamp e @ ''.avi'',
           vw_fourcc = VIDEO_CODEC, vw_fps = RECORDING_FPS,
           vw_frame_size = (f_width fr, f_height fr), vw_is_color = True\<rparr>,
        recording := True, recording_start_time := start_now e, frames_recorded := 0\<rparr>)"
  by (simp add: check_recording_status_def start_recording_def truthy_def Let_def VIDEO_DIR_def)

lemma check_start_fails:
  "recording_enabled s \<Longrightarrow> \<not> recording s \<Longrightarrow>
   now e - last_motion_time s \<ge> motion_cooldown s \<Longrightarrow> open_raises e \<Longrightarrow>
   check_recording_status e True fr s =
     ((None, None), s\<lparr>last_motion_time := now e, video_writer := None, recording := False\<rparr>)"
  by (simp add: check_recording_status_def start_recording_def truthy_def Let_def
      continue_recording_def)

section \<open>Runs of ticks\<close>

lemma run_checks_append:
  "run_checks s (xs @ ys) =
     (fst (run_checks s xs) @ fst (run_checks (snd (run_checks s xs)) ys),
      snd (run_checks (snd (run_checks s xs)) ys))"
  by (induction xs arbitrary: s) (auto simp: split_beta Let_def)

lemma run_checks_open_count:
  "recording_enabled s \<Longrightarrow> recording s \<Longrightarrow> video_writer s = Some w \<Longrightarrow>
   \<forall>t\<in>set pre. write_raises (fst t) \<or>
      write_now (fst t) - recording_start_time s < RECORDING_DURATION \<Longrightarrow>
   fst (run_checks s pre) = replicate (length pre) (Some Recording) \<and>
   frames_recorded (snd (run_checks s pre)) =
     frames_recorded s + length (filter (\<lambda>t. \<not> write_raises (fst t)) pre)"
proof (induction pre arbitrary: s)
  case Nil
  then show ?case by simp
next
  case (Cons t pre)
  obtain e md fr where t: "t = (e, md, fr)" by (cases t) auto
  let ?s1 = "snd (check_recording_status e md fr s)"
  from Cons.prems(4) have ok: "write_raises e \<or>
    write_now e - recording_start_time s < RECORDING_DURATION" by (simp add: t)
  have step: "fst (fst (check_recording_status e md fr s)) = Some Recording"
    "recording_enabled ?s1" "recording ?s1" "video_writer ?s1 = Some w"
    "recording_start_time ?s1 = recording_start_time s"
    "frames_recorded ?s1 = frames_recorded s + (if write_raises e then 0 else 1)"
    using Cons.prems(1-3) ok
    by (auto simp: check_recording_status_def continue_recording_def write_frame_def Let_def)
  have rest: "\<forall>t\<in>set pre. write_raises (fst t) \<or>
      write_now (fst t) - recording_start_time ?s1 < RECORDING_DURATION"
    using Cons.prems(4) step(5) by simp
  note IH = Cons.IH [OF step(2) step(3) step(4) rest]
  have unfold: "run_checks s (t # pre) =
      (fst (fst (check_recording_status e md fr s)) # fst (run_checks ?s1 pre),
       snd (run_checks ?s1 pre))"
    by (simp add: t split_beta)
  show ?case unfolding unfold using IH step(1,6) by (simp add: t)
qed

lemma run_checks_idle_blocked:
  "recording_enabled s \<Longrightarrow> \<not> recording s \<Longrightarrow>
   \<forall>t\<in>set ticks. now (fst t) - last_motion_time s < motion_cooldown s \<Longrightarrow>
   run_checks s ticks = (replicate (length ticks) None, s)"
proof (induction ticks)
  case Nil
  then show ?case by simp
next
  case (Cons t ticks)
  obtain e md fr where t: "t = (e, md, fr)" by (cases t) auto
  have "check_recording_status e md fr s = ((None, None), s)"
    using Cons.prems by (intro check_idle_blocked) (auto simp: t)
  then show ?case using Cons by (simp add: t)
qed

lemma run_checks_disabled_idle:
  "\<not> recording_enabled s \<Longrightarrow> \<not> recording s \<Longrightarrow>
   run_checks s ticks = (replicate (length ticks) None, s)"
proof (induction ticks)
  case Nil
  then show ?case by simp
next
  case (Cons t ticks)
  obtain e md fr where t: "t = (e, md, fr)" by (cases t) auto
  show ?case using Cons by (simp add: t check_disabled_idle)
qed

lemma run_checks_stays_open:
  "recording_enabled s \<Longrightarrow> recording s \<Longrightarrow> video_writer s = Some w \<Longrightarrow>
   \<forall>t\<in>set pre. write_raises (fst t) \<or>
      write_now (fst t) - recording_start_time s < RECORDING_DURATION \<Longrightarrow>
   recording_enabled (snd (run_checks s pre)) \<and>
   recording (snd (run_checks s pre)) \<and>
   video_writer (snd (run_checks s pre)) = Some w \<and>
   recording_start_time (snd (run_checks s pre)) = recording_start_time s"
proof (induction pre arbitrary: s)
  case Nil
  then show ?case by simp
next
  case (Cons t pre)
  obtain e md fr where t: "t = (e, md, fr)" by (cases t) auto
  let ?s1 = "snd (check_recording_status e md fr s)"
  from Cons.prems(4) have ok: "write_raises e \<or>
    write_now e - recording_start_time s < RECORDING_DURATION" by (simp add: t)
  have s1: "recording_enabled ?s1" "recording ?s1" "video_writer ?s1 = Some w"
    "recording_start_time ?s1 = recording_start_time s"
    using Cons.prems(1-3) ok
    by (auto simp: check_recording_status_def continue_recording_def write_frame_def Let_def)
  have rest: "\<forall>t\<in>set pre. write_raises (fst t) \<or>
      write_now (fst t) - recording_start_time ?s1 < RECORDING_DURATION"
    using Cons.prems(4) s1(4) by simp
  note IH = Cons.IH [OF s1(1) s1(2) s1(3) rest]
  have unfold: "snd (run_checks s (t # pre)) = snd (run_checks ?s1 pre)"
    by (simp add: t split_beta)
  show ?case using IH s1 by (simp add: unfold)
qed

lemma write_frame_stop_elapsed:
  "recording s \<Longrightarrow> \<not> recording (snd (write_frame e fr s)) \<Longrightarrow>
   RECORDING_DURATION \<le> write_now e - recording_start_time s"
  by (auto simp: write_frame_def Let_def split: if_splits)

lemmas fixture_defs = quiet_env_def vga_frame_def avi_writer_def
  open_session_def idle_detector_def init_def RECORDING_DURATION_def MOTION_COOLDOWN_def

section \<open>Forced stop at the target duration\<close>

text \<open>
  Claim C3. While a session is open and recording is enabled, every tick whose frame
  write raises or whose elapsed time (clock reading in write_frame minus
  recording_start_time) is below RECORDING_DURATION leaves the session open; the first
  tick whose frame is written with elapsed time at least RECORDING_DURATION closes it on
  that very tick, whatever motion_detected is on any of the ticks. Whenever a call of
  write_frame closes a session, the elapsed time at that call is at least
  RECORDING_DURATION.
\<close>

theorem forced_stop_on_first_expired_write:
  assumes "recording_enabled s" and "recording s" and "video_writer s = Some w"
    and "\<forall>t\<in>set pre. write_raises (fst t) \<or>
           write_now (fst t) - recording_start_time s < RECORDING_DURATION"
    and "\<not> write_raises e"
    and "RECORDING_DURATION \<le> write_now e - recording_start_time s"
  shows "recording (snd (run_checks s pre)) \<and>
         \<not> recording (snd (run_checks s (pre @ [(e, md, fr)]))) \<and>
         video_writer (snd (run_checks s (pre @ [(e, md, fr)]))) = None \<and>
         (\<forall>e' fr' s'. recording s' \<and> \<not> recording (snd (write_frame e' fr' s'))
             \<longrightarrow> RECORDING_DURATION \<le> write_now e' - recording_start_time s')"
proof -
  let ?s1 = "snd (run_checks s pre)"
  have open1: "recording_enabled ?s1" "recording ?s1" "video_writer ?s1 = Some w"
    "recording_start_time ?s1 = recording_start_time s"
    using run_checks_stays_open [OF assms(1-4)] by simp_all
  have last: "snd (run_checks s (pre @ [(e, md, fr)])) =
      snd (check_recording_status e md fr ?s1)"
    by (simp add: run_checks_append split_beta)
  have closed: "\<not> recording (snd (check_recording_status e md fr ?s1))"
    "video_writer (snd (check_recording_status e md fr ?s1)) = None"
    using open1 assms(5,6) by (simp_all add: check_open_expire)
  show ?thesis using open1(2) closed write_frame_stop_elapsed by (simp add: last) blast
qed

theorem forced_stop_on_first_expired_write_witness:
  "recording (snd (run_checks (open_session 100)
      [(quiet_env 103, True, vga_frame), (quiet_env 106, False, vga_frame)])) \<and>
   \<not> recording (snd (run_checks (open_session 100)
      ([(quiet_env 103, True, vga_frame), (quiet_env 106, False, vga_frame)]
        @ [(quiet_env 110, True, vga_frame)]))) \<and>
   RECORDING_DURATION \<le> write_now (quiet_env 110) - recording_start_time (open_session 100)"
  using forced_stop_on_first_expired_write [of "open_session 100" avi_writer
      "[(quiet_env 103, True, vga_frame), (quiet_env 106, False, vga_frame)]"
      "quiet_env 110" True vga_frame]
  by (simp add: fixture_defs)

section \<open>A set recording flag comes with a video writer\<close>

text \<open>The detector starts idle, and neither check_recording_status nor a whole tick can
  leave the recording flag set without a video writer. The states in which the flag is
  set are therefore the states with an open session.\<close>

lemma init_writer_invariant:
  "\<not> recording init"
  by (simp add: init_def)

lemma check_recording_status_writer_invariant:
  assumes "recording s \<longrightarrow> video_writer s \<noteq> None"
  shows "recording (snd (check_recording_status e md fr s)) \<longrightarrow>
         video_writer (snd (check_recording_status e md fr s)) \<noteq> None"
  using assms
  by (auto simp: check_recording_status_def continue_recording_def write_frame_def
      stop_recording_def start_recording_def truthy_def Let_def split_beta split: if_splits)

lemma detect_motion_writer_invariant:
  assumes "recording s \<longrightarrow> video_writer s \<noteq> None"
  shows "recording (snd (detect_motion env s)) \<longrightarrow>
         video_writer (snd (detect_motion env s)) \<noteq> None"
proof -
  have "snd (detect_motion env s) = s \<or>
      (\<exists>md fr. snd (detect_motion env s) =
          snd (check_recording_status (rec_world env) md fr s))"
    by (auto simp: detect_motion_def detect_motion_body_def Let_def split_beta
        split: if_splits sum.splits prod.splits option.splits)
  then show ?thesis
    using assms check_recording_status_writer_invariant [OF assms] by auto
qed

section \<open>Recording disabled\<close>

text \<open>
  Claim C4. Let recording_enabled be false, in a state where a set recording flag comes
  with a video writer (a session is open). A call of check_recording_status on an open
  session stops it at once and returns the status Stopped, whatever motion_detected is.
  After any call, and after any non-empty run of calls, the detector is not recording; no
  call of a run returns Started or Recording; and from an idle state every call returns
  no status and leaves the state as it is.
\<close>

theorem disabled_never_records:
  assumes "\<not> recording_enabled s" and "recording s \<longrightarrow> video_writer s \<noteq> None"
  shows "(recording s \<longrightarrow>
            check_recording_status e md fr s =
              ((Some Stopped, None), s\<lparr>video_writer := None, recording := False\<rparr>)) \<and>
         \<not> recording (snd (check_recording_status e md fr s)) \<and>
         \<not> recording (snd (run_checks s (t # ticks))) \<and>
         Some Started \<notin> set (fst (run_checks s ticks)) \<and>
         Some Recording \<notin> set (fst (run_checks s ticks)) \<and>
         (\<not> recording s \<longrightarrow> run_checks s ticks = (replicate (length ticks) None, s))"
proof -
  have first: "\<And>e md fr. \<not> recording_enabled (snd (check_recording_status e md fr s)) \<and>
      \<not> recording (snd (check_recording_status e md fr s)) \<and>
      fst (fst (check_recording_status e md fr s)) \<in> {None, Some Stopped}"
    using assms by (cases "recording s") (simp_all add: check_disabled_open check_disabled_idle)
  have idle: "\<And>s' ts. \<not> recording_enabled s' \<Longrightarrow> \<not> recording s' \<Longrightarrow>
      run_checks s' ts = (replicate (length ts) None, s')"
    by (rule run_checks_disabled_idle)
  have nonempty: "\<And>t ts. \<not> recording (snd (run_checks s (t # ts))) \<and>
      Some Started \<notin> set (fst (run_checks s (t # ts))) \<and>
      Some Recording \<notin> set (fst (run_checks s (t # ts)))"
  proof -
    fix t :: "rec_env \<times> bool \<times> frame" and ts
    obtain e md fr where t: "t = (e, md, fr)" by (cases t) auto
    let ?s1 = "snd (check_recording_status e md fr s)"
    have run: "run_checks s (t # ts) =
        (fst (fst (check_recording_status e md fr s)) # replicate (length ts) None, ?s1)"
      using idle [of ?s1 ts] first [of e md fr] by (simp add: t split_beta)
    show "\<not> recording (snd (run_checks s (t # ts))) \<and>
      Some Started \<notin> set (fst (run_checks s (t # ts))) \<and>
      Some Recording \<notin> set (fst (run_checks s (t # ts)))"
      using first [of e md fr] by (auto simp: run)
  qed
  have statuses: "Some Started \<notin> set (fst (run_checks s ticks)) \<and>
      Some Recording \<notin> set (fst (run_checks s ticks))"
    using nonempty by (cases ticks) simp_all
  show ?thesis
    using assms first [of e md fr] nonempty [of t ticks] statuses idle [of s ticks]
    by (simp add: check_disabled_open)
qed

theorem disabled_never_records_witness:
  "check_recording_status (quiet_env 105) True vga_frame
       ((open_session 100)\<lparr>recording_enabled := False\<rparr>) =
     ((Some Stopped, None),
      (open_session 100)\<lparr>recording_enabled := False, video_writer := None, recording := False\<rparr>) \<and>
   \<not> recording (snd (run_checks ((open_session 100)\<lparr>recording_enabled := False\<rparr>)
       ((quiet_env 105, True, vga_frame) # [(quiet_env 120, True, vga_frame)]))) \<and>
   fst (run_checks ((open_session 100)\<lparr>recording_enabled := False\<rparr>)
       [(quiet_env 105, True, vga_frame), (quiet_env 120, True, vga_frame)]) = [Some Stopped, None]"
  using disabled_never_records [of "(open_session 100)\<lparr>recording_enabled := False\<rparr>"
      "quiet_env 105" True vga_frame "(quiet_env 105, True, vga_frame)"
      "[(quiet_env 120, True, vga_frame)]"]
  by (simp add: fixture_defs check_recording_status_def stop_recording_def continue_recording_def)

section \<open>Failure to open a session\<close>

text \<open>
  Claim C7. If the attempt of start_recording raises, start_recording returns None with
  the recording flag false and no video writer; and the call of check_recording_status
  that made the attempt (recording enabled, motion detected, not recording, cooldown
  elapsed) returns no status and no path, with the recording flag false and no video
  writer afterwards.
\<close>

theorem failed_open_aborts_transition:
  assumes "open_raises e" and "\<not> recording s"
  shows "start_recording e frame_size s = (None, s\<lparr>video_writer := None, recording := False\<rparr>) \<and>
         (recording_enabled s \<and> md \<and> motion_cooldown s \<le> now e - last_motion_time s \<longrightarrow>
            fst (check_recording_status e md fr s) = (None, None) \<and>
            \<not> recording (snd (check_recording_status e md fr s)) \<and>
            video_writer (snd (check_recording_status e md fr s)) = None)"
  using assms by (auto simp: start_recording_def check_start_fails)

theorem failed_open_aborts_transition_witness:
  "start_recording (failing_open_env 100) (640, 480) idle_detector =
     (None, idle_detector\<lparr>video_writer := None, recording := False\<rparr>) \<and>
   fst (check_recording_status (failing_open_env 100) True vga_frame idle_detector) = (None, None) \<and>
   \<not> recording (snd (check_recording_status (failing_open_env 100) True vga_frame idle_detector)) \<and>
   video_writer (snd (check_recording_status (failing_open_env 100) True vga_frame idle_detector))
     = None"
  using failed_open_aborts_transition [of "failing_open_env 100" idle_detector "(640, 480)"
      True vga_frame]
  by (simp add: fixture_defs failing_open_env_def)

text \<open>
  Claim C9. When check_recording_status attempts to start a session at clock reading
  \<open>now e\<close> (recording enabled, motion detected, not recording, cooldown elapsed),
  last_motion_time is \<open>now e\<close> afterwards, whether or not the attempt raises. If it
  raises, every later run of calls whose clock readings are all less than motion_cooldown
  after \<open>now e\<close> returns no status and starts no session: the state stays as the failed
  attempt left it.
\<close>

theorem start_attempt_sets_last_motion_time:
  assumes "recording_enabled s" and "\<not> recording s"
    and "motion_cooldown s \<le> now e - last_motion_time s"
  shows "last_motion_time (snd (check_recording_status e True fr s)) = now e \<and>
         (open_raises e \<longrightarrow>
            check_recording_status e True fr s =
              ((None, None), s\<lparr>last_motion_time := now e, video_writer := None,
                               recording := False\<rparr>) \<and>
            ((\<forall>t\<in>set ticks. now (fst t) - now e < motion_cooldown s) \<longrightarrow>
               run_checks (snd (check_recording_status e True fr s)) ticks =
                 (replicate (length ticks) None, snd (check_recording_status e True fr s))))"
proof (cases "open_raises e")
  case True
  let ?s1 = "s\<lparr>last_motion_time := now e, video_writer := None, recording := False\<rparr>"
  have step: "check_recording_status e True fr s = ((None, None), ?s1)"
    using assms True by (rule check_start_fails)
  have "(\<forall>t\<in>set ticks. now (fst t) - now e < motion_cooldown s) \<Longrightarrow>
      run_checks ?s1 ticks = (replicate (length ticks) None, ?s1)"
    using assms(1) by (intro run_checks_idle_blocked) simp_all
  then show ?thesis using True by (simp add: step)
next
  case False
  then show ?thesis using assms by (simp add: check_start_ok)
qed

theorem start_attempt_sets_last_motion_time_witness:
  "last_motion_time (snd (check_recording_status (failing_open_env 100) True vga_frame
       idle_detector)) = 100 \<and>
   run_checks (snd (check_recording_status (failing_open_env 100) True vga_frame idle_detector))
       [(quiet_env 100.5, True, vga_frame), (quiet_env 101.9, True, vga_frame)] =
     ([None, None],
      snd (check_recording_status (failing_open_env 100) True vga_frame idle_detector))"
  using start_attempt_sets_last_motion_time [of idle_detector "failing_open_env 100"
      vga_frame "[(quiet_env 100.5, True, vga_frame), (quiet_env 101.9, True, vga_frame)]"]
  by (simp add: fixture_defs failing_open_env_def check_recording_status_def
      start_recording_def truthy_def continue_recording_def)

section \<open>The frame count on the tick that reaches the target duration\<close>

text \<open>
  Claim C2 as stated fails. A session started by the tick at clock reading 100 and ticked
  at 105 and 110 is open after the tick at 105 and closed by the tick at 110 (elapsed
  time 10). It has then recorded 2 frames, not 3, over the 3 ticks from the one that
  reported Started to the one that closed it: the tick that reports Started returns
  before any frame is written.
\<close>

theorem frame_count_with_started_tick_counterexample:
  "hd (fst (run_checks idle_detector
      [(quiet_env 100, True, vga_frame), (quiet_env 105, True, vga_frame),
       (quiet_env 110, True, vga_frame)])) = Some Started \<and>
   recording (snd (run_checks idle_detector
      [(quiet_env 100, True, vga_frame), (quiet_env 105, True, vga_frame)])) \<and>
   \<not> recording (snd (run_checks idle_detector
      [(quiet_env 100, True, vga_frame), (quiet_env 105, True, vga_frame),
       (quiet_env 110, True, vga_frame)])) \<and>
   RECORDING_DURATION \<le> write_now (quiet_env 110) - start_now (quiet_env 100) \<and>
   frames_recorded (snd (run_checks idle_detector
      [(quiet_env 100, True, vga_frame), (quiet_env 105, True, vga_frame),
       (quiet_env 110, True, vga_frame)])) = 2 \<and>
   frames_recorded (snd (run_checks idle_detector
      [(quiet_env 100, True, vga_frame), (quiet_env 105, True, vga_frame),
       (quiet_env 110, True, vga_frame)])) \<noteq>
     length [(quiet_env 100, True, vga_frame), (quiet_env 105, True, vga_frame),
       (quiet_env 110, True, vga_frame)]"
  by (simp add: fixture_defs check_recording_status_def start_recording_def truthy_def
      continue_recording_def write_frame_def stop_recording_def VIDEO_DIR_def Let_def
      split_beta)

text \<open>
  Claim C2, amended. A session is opened by a tick that reports Started and writes no
  frame (frames_recorded is 0 after it), and stays open over the following ticks whose
  write raises or whose elapsed time is below RECORDING_DURATION. The tick whose frame is
  written with elapsed time at least RECORDING_DURATION closes the session, and at that
  point frames_recorded is the number of ticks on which a frame was written while the
  session was open: the ticks after the one that reported Started, through the closing
  tick, without those whose write raised. Nothing is stated about the status that the
  closing tick reports.
\<close>

theorem frames_recorded_at_expiry:
  assumes "recording_enabled s" and "\<not> recording s"
    and "motion_cooldown s \<le> now e0 - last_motion_time s"
    and "\<not> open_raises e0"
    and "\<forall>t\<in>set mid. write_raises (fst t) \<or>
           write_now (fst t) - start_now e0 < RECORDING_DURATION"
    and "\<not> write_raises e"
    and "RECORDING_DURATION \<le> write_now e - start_now e0"
  shows "fst (run_checks s ((e0, True, fr0) # mid)) =
           Some Started # replicate (length mid) (Some Recording) \<and>
         frames_recorded (snd (run_checks s [(e0, True, fr0)])) = 0 \<and>
         recording (snd (run_checks s ((e0, True, fr0) # mid))) \<and>
         \<not> recording (snd (run_checks s ((e0, True, fr0) # mid @ [(e, md, fr)]))) \<and>
         video_writer (snd (run_checks s ((e0, True, fr0) # mid @ [(e, md, fr)]))) = None \<and>
         frames_recorded (snd (run_checks s ((e0, True, fr0) # mid @ [(e, md, fr)]))) =
           length (filter (\<lambda>t. \<not> write_raises (fst t)) mid) + 1"
proof -
  let ?s1 = "snd (check_recording_status e0 True fr0 s)"
  let ?w = "\<lparr>vw_path = VIDEO_DIR @ ''/'' @ ''motion_'' @ timestamp e0 @ ''.avi'',
           vw_fourcc = VIDEO_CODEC, vw_fps = RECORDING_FPS,
           vw_frame_size = (f_width fr0, f_height fr0), vw_is_color = True\<rparr>"
  have start: "fst (check_recording_status e0 True fr0 s) =
      (Some Started, Some (VIDEO_DIR @ ''/'' @ ''motion_'' @ timestamp e0 @ ''.avi''))"
    "recording_enabled ?s1" "recording ?s1" "video_writer ?s1 = Some ?w"
    "recording_start_time ?s1 = start_now e0" "frames_recorded ?s1 = 0"
    using assms(1-4) by (simp_all add: check_start_ok)
  let ?s2 = "snd (run_checks ?s1 mid)"
  have mid: "\<forall>t\<in>set mid. write_raises (fst t) \<or>
      write_now (fst t) - recording_start_time ?s1 < RECORDING_DURATION"
    using assms(5) start(5) by simp
  note open2 = run_checks_stays_open [OF start(2) start(3) start(4) mid]
  note count2 = run_checks_open_count [OF start(2) start(3) start(4) mid]
  have wr2: "video_writer ?s2 \<noteq> None" using open2 by simp
  have exp2: "RECORDING_DURATION \<le> write_now e - recording_start_time ?s2"
    using open2 start(5) assms(7) by simp
  have last: "check_recording_status e md fr ?s2 =
     ((Some Recording, None),
      (if md then ?s2\<lparr>frames_recorded := frames_recorded ?s2 + 1, video_writer := None,
                    recording := False, last_motion_time := now e\<rparr>
       else ?s2\<lparr>frames_recorded := frames_recorded ?s2 + 1, video_writer := None,
                recording := False\<rparr>))"
    using open2 wr2 assms(6) exp2 by (intro check_open_expire) simp_all
  have run1: "run_checks s [(e0, True, fr0)] = ([Some Started], ?s1)"
    by (simp add: split_beta start(1))
  have run2: "run_checks s ((e0, True, fr0) # mid) =
      (Some Started # fst (run_checks ?s1 mid), ?s2)"
    by (simp add: split_beta start(1))
  have run3: "snd (run_checks s ((e0, True, fr0) # mid @ [(e, md, fr)])) =
      snd (check_recording_status e md fr ?s2)"
    by (simp add: run_checks_append split_beta)
  show ?thesis unfolding run1 run2 run3
    using open2 count2 start(6) by (simp add: last)
qed

theorem frames_recorded_at_expiry_witness:
  "fst (run_checks idle_detector
      ((quiet_env 100, True, vga_frame) #
        [(quiet_env 103, True, vga_frame),
         ((quiet_env 105)\<lparr>write_raises := True\<rparr>, True, vga_frame),
         (quiet_env 107, False, vga_frame)])) =
     [Some Started, Some Recording, Some Recording, Some Recording] \<and>
   \<not> recording (snd (run_checks idle_detector
      ((quiet_env 100, True, vga_frame) #
        [(quiet_env 103, True, vga_frame),
         ((quiet_env 105)\<lparr>write_raises := True\<rparr>, True, vga_frame),
         (quiet_env 107, False, vga_frame)] @ [(quiet_env 110, False, vga_frame)]))) \<and>
   frames_recorded (snd (run_checks idle_detector
      ((quiet_env 100, True, vga_frame) #
        [(quiet_env 103, True, vga_frame),
         ((quiet_env 105)\<lparr>write_raises := True\<rparr>, True, vga_frame),
         (quiet_env 107, False, vga_frame)] @ [(quiet_env 110, False, vga_frame)]))) = 3"
  using frames_recorded_at_expiry [of idle_detector "quiet_env 100"
      "[(quiet_env 103, True, vga_frame),
        ((quiet_env 105)\<lparr>write_raises := True\<rparr>, True, vga_frame),
        (quiet_env 107, False, vga_frame)]" "quiet_env 110" vga_frame False vga_frame]
  by (simp add: fixture_defs)

text \<open>
  The status of the closing tick. check_recording_status returns Stopped on the path that
  closes a session because recording is disabled. On the path that closes a session
  because the duration has elapsed, write_frame closes it and check_recording_status
  still returns Recording, although the recording flag is false when it returns. The
  docstring of the source lists "stopped" among the statuses; the source misses this case.
\<close>

lemma expiry_tick_status:
  "check_recording_status (quiet_env 110) True vga_frame (open_session 100) =
     ((Some Recording, None),
      (open_session 100)\<lparr>frames_recorded := 1, video_writer := None, recording := False,
         last_motion_time := 110\<rparr>) \<and>
   check_recording_status (quiet_env 110) True vga_frame
       ((open_session 100)\<lparr>recording_enabled := False\<rparr>) =
     ((Some Stopped, None),
      (open_session 100)\<lparr>recording_enabled := False, video_writer := None,
         recording := False\<rparr>)"
  by (simp add: fixture_defs check_recording_status_def continue_recording_def
      write_frame_def stop_recording_def Let_def)

section \<open>Shutdown while a session is open\<close>

text \<open>The first definition of cleanup finalizes an open session and releases the camera;
  the definition in force only releases the camera.\<close>

lemma stop_camera_fields:
  "cap (stop_camera s) = None" "\<not> feed_active (stop_camera s)"
  "recording (stop_camera s) = recording s" "video_writer (stop_camera s) = video_writer s"
  by (simp_all add: stop_camera_def Let_def split: option.splits)

lemma cleanup_first_finalizes:
  "recording s \<Longrightarrow> video_writer s \<noteq> None \<Longrightarrow>
   \<not> recording (cleanup_first e s) \<and> video_writer (cleanup_first e s) = None \<and>
   cap (cleanup_first e s) = None \<and> \<not> feed_active (cleanup_first e s)"
  by (simp add: cleanup_first_def stop_camera_fields stop_recording_def)

lemma cleanup_keeps_session:
  "recording (cleanup s) = recording s \<and> video_writer (cleanup s) = video_writer s \<and>
   cap (cleanup s) = None \<and> \<not> feed_active (cleanup s)"
  by (simp add: cleanup_def stop_camera_fields)

text \<open>
  Claim C1. On a detector with an open session, cleanup (the definition in force, the
  second one of the class body) releases the camera handle but does not finalize the
  session: afterwards the recording flag is still set and the video writer is still
  held, not released.
\<close>

theorem cleanup_leaves_session_open:
  "recording (cleanup (open_session 100)) \<and>
   video_writer (cleanup (open_session 100)) = Some avi_writer \<and>
   cap (cleanup (open_session 100)) = None \<and>
   \<not> feed_active (cleanup (open_session 100))"
  by (simp add: cleanup_def stop_camera_def open_session_def init_def)

section \<open>The contour filter and the failure paths of a tick\<close>

lemma filter_contours_Inr:
  "filter_contours env cs (fr, rects, md) = Inr (fr', rects', md') \<Longrightarrow>
   rects' = rects @ map (boundingRect env) (filter (\<lambda>c. MIN_CONTOUR_AREA \<le> contourArea env c) cs) \<and>
   md' = (md \<or> (\<exists>c\<in>set cs. MIN_CONTOUR_AREA \<le> contourArea env c))"
proof (induction cs arbitrary: fr rects md)
  case Nil
  then show ?case by simp
next
  case (Cons c cs)
  show ?case
  proof (cases "contourArea env c < MIN_CONTOUR_AREA")
    case True
    with Cons.prems have "filter_contours env cs (fr, rects, md) = Inr (fr', rects', md')"
      by simp
    from Cons.IH [OF this] True show ?thesis by auto
  next
    case False
    obtain x y w h where br: "boundingRect env c = (x, y, w, h)"
      by (cases "boundingRect env c") auto
    from Cons.prems False br have nr: "\<not> annotate_raises env c"
      by (auto split: if_splits)
    with Cons.prems False br have "filter_contours env cs
        (fr\<lparr>overlays := overlays fr @ [MotionBox (x, y, w, h), MotionLabel x (y - 10)]\<rparr>,
         rects @ [(x, y, w, h)], True) = Inr (fr', rects', md')"
      by simp
    from Cons.IH [OF this] False br show ?thesis by auto
  qed
qed

lemma filter_contours_raises:
  "\<exists>c\<in>set cs. \<not> contourArea env c < MIN_CONTOUR_AREA \<and> annotate_raises env c \<Longrightarrow>
   \<exists>x. filter_contours env cs acc = Inl x"
proof (induction cs arbitrary: acc)
  case Nil
  then show ?case by simp
next
  case (Cons c cs)
  obtain fr rects md where acc: "acc = (fr, rects, md)" by (cases acc) auto
  show ?case
  proof (cases "\<not> contourArea env c < MIN_CONTOUR_AREA \<and> annotate_raises env c")
    case True
    then show ?thesis by (simp add: acc split_beta)
  next
    case False
    with Cons.prems have "\<exists>c\<in>set cs. \<not> contourArea env c < MIN_CONTOUR_AREA \<and>
        annotate_raises env c" by auto
    from Cons.IH [OF this] show ?thesis
      by (auto simp: acc split_beta Let_def)
  qed
qed

lemma detect_motion_body_Inr:
  assumes "detect_motion_body env s = (Inr (fr, rects, md, st), s')"
  shows "\<exists>cs. contours_result env = Inr cs \<and> fr \<noteq> None \<and>
     rects = map (boundingRect env) (filter (\<lambda>c. MIN_CONTOUR_AREA \<le> contourArea env c) cs) \<and>
     md = (\<exists>c\<in>set cs. MIN_CONTOUR_AREA \<le> contourArea env c)"
proof -
  from assms obtain ret f0 where rd: "read_result env = Inr (ret, f0)"
    by (auto simp: detect_motion_body_def split: sum.splits)
  from assms rd have ret: "ret"
    by (auto simp: detect_motion_body_def split: if_splits)
  from assms rd ret obtain cs where cs: "contours_result env = Inr cs"
    by (auto simp: detect_motion_body_def split: sum.splits)
  from assms rd ret cs obtain fr1 rects1 md1
    where loop: "filter_contours env cs (f0, [], False) = Inr (fr1, rects1, md1)"
    by (auto simp: detect_motion_body_def split: sum.splits)
  from assms rd ret cs loop have out: "fr \<noteq> None" "rects = rects1" "md = md1"
    by (auto simp: detect_motion_body_def Let_def split_beta split: if_splits)
  from filter_contours_Inr [OF loop] out cs show ?thesis by auto
qed

text \<open>
  Claim C6. Whatever detect_motion returns, motion_detected is true exactly when the
  returned list of rectangles is not empty. On a tick that returns a frame, the
  rectangles are the bounding rectangles of exactly the contours whose area is at least
  MIN_CONTOUR_AREA, in the order of the contours, so no contour with a smaller area
  contributes one, and motion_detected is true exactly when such a contour exists. On a
  tick that returns no frame, the list is empty and motion_detected is false.
\<close>

theorem small_contours_are_discarded:
  assumes "detect_motion env s = ((fr, motion_rects, motion_detected, st), s')"
  shows "motion_detected = (motion_rects \<noteq> []) \<and>
         (fr = None \<longrightarrow> motion_rects = [] \<and> \<not> motion_detected) \<and>
         (fr \<noteq> None \<longrightarrow>
            (\<exists>contours. contours_result env = Inr contours \<and>
               motion_rects = map (boundingRect env)
                  (filter (\<lambda>c. MIN_CONTOUR_AREA \<le> contourArea env c) contours) \<and>
               motion_detected = (\<exists>c\<in>set contours. MIN_CONTOUR_AREA \<le> contourArea env c)))"
proof (cases "(fr, motion_rects, motion_detected, st) = (None, [], False, None)")
  case True
  then show ?thesis by simp
next
  case False
  with assms have body: "detect_motion_body env s = (Inr (fr, motion_rects, motion_detected, st), s')"
    by (auto simp: detect_motion_def split: if_splits prod.splits sum.splits)
  from detect_motion_body_Inr [OF body] obtain cs where
    cs: "contours_result env = Inr cs" "fr \<noteq> None"
      "motion_rects = map (boundingRect env)
         (filter (\<lambda>c. MIN_CONTOUR_AREA \<le> contourArea env c) cs)"
      "motion_detected = (\<exists>c\<in>set cs. MIN_CONTOUR_AREA \<le> contourArea env c)"
    by blast
  have "motion_detected = (motion_rects \<noteq> [])"
    by (auto simp: cs(3,4) filter_empty_conv)
  with cs show ?thesis by auto
qed

theorem small_contours_are_discarded_witness:
  "fst (detect_motion (sample_tick 100 [(120, (5, 5, 10, 12)), (900, (40, 60, 30, 30)),
        (699.5, (1, 2, 26, 27)), (700, (200, 100, 35, 20))]) idle_detector) =
     (Some (vga_frame\<lparr>overlays := [MotionBox (40, 60, 30, 30), MotionLabel 40 50,
          MotionBox (200, 100, 35, 20), MotionLabel 200 90, RecText 10, RecDot]\<rparr>),
      [(40, 60, 30, 30), (200, 100, 35, 20)], True, Some Started) \<and>
   [(40, 60, 30, 30), (200, 100, 35, 20)] = map (boundingRect (sample_tick 100
        [(120, (5, 5, 10, 12)), (900, (40, 60, 30, 30)),
         (699.5, (1, 2, 26, 27)), (700, (200, 100, 35, 20))]))
      (filter (\<lambda>c. MIN_CONTOUR_AREA \<le> contourArea (sample_tick 100
        [(120, (5, 5, 10, 12)), (900, (40, 60, 30, 30)),
         (699.5, (1, 2, 26, 27)), (700, (200, 100, 35, 20))]) c)
        [(120, (5, 5, 10, 12)), (900, (40, 60, 30, 30)),
         (699.5, (1, 2, 26, 27)), (700, (200, 100, 35, 20))])"
  using small_contours_are_discarded [of "sample_tick 100 [(120, (5, 5, 10, 12)),
      (900, (40, 60, 30, 30)), (699.5, (1, 2, 26, 27)), (700, (200, 100, 35, 20))]"
      idle_detector
      "Some (vga_frame\<lparr>overlays := [MotionBox (40, 60, 30, 30), MotionLabel 40 50,
          MotionBox (200, 100, 35, 20), MotionLabel 200 90, RecText 10, RecDot]\<rparr>)"
      "[(40, 60, 30, 30), (200, 100, 35, 20)]" True "Some Started"
      "snd (detect_motion (sample_tick 100 [(120, (5, 5, 10, 12)), (900, (40, 60, 30, 30)),
        (699.5, (1, 2, 26, 27)), (700, (200, 100, 35, 20))]) idle_detector)"]
  by (simp add: sample_tick_def fixture_defs detect_motion_def detect_motion_body_def
      MIN_CONTOUR_AREA_def check_recording_status_def start_recording_def truthy_def
      VIDEO_DIR_def Let_def split_beta)

text \<open>
  Claim C8. detect_motion always returns a result value. It is the value
  (None, [], False, None) when the feed is inactive, when there is no camera handle or
  the handle is not opened, and when a step of the try block raises: reading the frame
  (or the read answering no frame), the vision pipeline, drawing a region that passed
  the area filter, or drawing the recording overlay while a session is open.
\<close>

theorem detect_motion_failure_paths:
  assumes "\<not> feed_active s \<or> cap s = None \<or> (\<exists>c. cap s = Some c \<and> \<not> cap_opened c) \<or>
     (\<exists>x. read_result env = Inl x) \<or> (\<exists>f. read_result env = Inr (False, f)) \<or>
     (\<exists>x. contours_result env = Inl x) \<or>
     (\<exists>cs. contours_result env = Inr cs \<and>
        (\<exists>c\<in>set cs. \<not> contourArea env c < MIN_CONTOUR_AREA \<and> annotate_raises env c)) \<or>
     (overlay_raises env \<and> recording (snd (detect_motion env s))) \<or>
     (\<exists>x. fst (detect_motion_body env s) = Inl x)"
  shows "fst (detect_motion env s) = (None, [], False, None)"
proof (cases "\<not> feed_active s \<or> (case cap s of None \<Rightarrow> True | Some c \<Rightarrow> \<not> cap_opened c)")
  case True
  then show ?thesis by (simp add: detect_motion_def)
next
  case guard: False
  have inl: "(\<exists>x. fst (detect_motion_body env s) = Inl x) \<Longrightarrow> ?thesis"
    using guard by (auto simp: detect_motion_def split: prod.splits sum.splits)
  have inr: "\<And>r s1. detect_motion_body env s = (Inr r, s1) \<Longrightarrow>
      detect_motion env s = (r, s1)"
    using guard by (auto simp: detect_motion_def)
  show ?thesis
  proof (cases "fst (detect_motion_body env s)")
    case (Inl x)
    then show ?thesis using inl by blast
  next
    case (Inr r)
    then have body: "detect_motion_body env s = (Inr r, snd (detect_motion_body env s))"
      by (metis prod.collapse)
    note dm = inr [OF body]
    from guard have g: "feed_active s" "cap s \<noteq> None" "\<forall>c. cap s = Some c \<longrightarrow> cap_opened c"
      by (auto split: option.splits)
    from body obtain ret f0 where rd: "read_result env = Inr (ret, f0)"
      by (auto simp: detect_motion_body_def split: sum.splits)
    from body rd have ret: "ret"
      by (auto simp: detect_motion_body_def split: if_splits)
    from body rd ret obtain cs where cs: "contours_result env = Inr cs"
      by (auto simp: detect_motion_body_def split: sum.splits)
    from body rd ret cs obtain acc
      where loop: "filter_contours env cs (f0, [], False) = Inr acc"
      by (auto simp: detect_motion_body_def split: sum.splits)
    have no_annot: "\<not> (\<exists>c\<in>set cs. \<not> contourArea env c < MIN_CONTOUR_AREA \<and>
        annotate_raises env c)"
      using filter_contours_raises [of cs env "(f0, [], False)"] loop by auto
    have no_overlay: "\<not> (overlay_raises env \<and> recording (snd (detect_motion env s)))"
      using body rd ret cs loop
      by (auto simp: dm detect_motion_body_def Let_def split_beta split: if_splits)
    from assms g rd ret cs no_annot no_overlay Inr show ?thesis by auto
  qed
qed

theorem detect_motion_failure_paths_witness:
  "fst (detect_motion ((sample_tick 100 [(900, (40, 60, 30, 30))])
        \<lparr>read_result := Inr (False, vga_frame)\<rparr>) idle_detector) = (None, [], False, None) \<and>
   fst (detect_motion (sample_tick 100 [(900, (40, 60, 30, 30))]) init) = (None, [], False, None) \<and>
   fst (detect_motion ((sample_tick 100 [(900, (40, 60, 30, 30))])
        \<lparr>contours_result := Inl LibraryError\<rparr>) idle_detector) = (None, [], False, None) \<and>
   fst (detect_motion ((sample_tick 100 [(900, (40, 60, 30, 30))])
        \<lparr>annotate_raises := (\<lambda>c. True)\<rparr>) idle_detector) = (None, [], False, None)"
  using detect_motion_failure_paths [of idle_detector
      "(sample_tick 100 [(900, (40, 60, 30, 30))])\<lparr>read_result := Inr (False, vga_frame)\<rparr>"]
    detect_motion_failure_paths [of init "sample_tick 100 [(900, (40, 60, 30, 30))]"]
    detect_motion_failure_paths [of idle_detector
      "(sample_tick 100 [(900, (40, 60, 30, 30))])\<lparr>contours_result := Inl LibraryError\<rparr>"]
    detect_motion_failure_paths [of idle_detector
      "(sample_tick 100 [(900, (40, 60, 30, 30))])\<lparr>annotate_raises := (\<lambda>c. True)\<rparr>"]
  by (simp add: sample_tick_def fixture_defs MIN_CONTOUR_AREA_def)

section \<open>The alert gate\<close>

text \<open>
  Claim C5 as stated fails: when the text-to-speech engine is absent, trigger_alert
  returns false although the elapsed time since the last alert is greater than the
  timeout.
\<close>

theorem alert_needs_engine_counterexample:
  "MOTION_TIMEOUT < alert_now \<lparr>alert_now = 100, say_raises = False\<rparr>
      - last_alert_time (silent_alerts 0) \<and>
   \<not> fst (trigger_alert \<lparr>alert_now = 100, say_raises = False\<rparr> ''Motion detected!''
      (silent_alerts 0))"
  by (simp add: trigger_alert_def silent_alerts_def MOTION_TIMEOUT_def)

text \<open>
  Claim C5, amended. With a text-to-speech engine present and the delivery not raising,
  trigger_alert returns true exactly when the elapsed time since last_alert_time is
  strictly greater than MOTION_TIMEOUT; when it returns true, last_alert_time becomes the
  clock reading of the call, and otherwise the state is unchanged. After a call that
  returned true, a second call less than MOTION_TIMEOUT later returns false, and a second
  call MOTION_TIMEOUT + \<open>\<epsilon>\<close> later (\<open>\<epsilon>\<close> positive, delivery not raising) returns true.
\<close>

theorem alert_gate_debounce:
  assumes "tts_engine a \<noteq> None" and "\<not> say_raises e"
  shows "(fst (trigger_alert e m a) \<longleftrightarrow> MOTION_TIMEOUT < alert_now e - last_alert_time a) \<and>
         (fst (trigger_alert e m a) \<longrightarrow>
            snd (trigger_alert e m a) = a\<lparr>last_alert_time := alert_now e\<rparr>) \<and>
         (\<not> fst (trigger_alert e m a) \<longrightarrow> snd (trigger_alert e m a) = a) \<and>
         (fst (trigger_alert e m a) \<and> alert_now e2 - alert_now e < MOTION_TIMEOUT \<longrightarrow>
            \<not> fst (trigger_alert e2 m2 (snd (trigger_alert e m a)))) \<and>
         (fst (trigger_alert e m a) \<and> \<not> say_raises e2 \<and> 0 < \<epsilon> \<and>
          alert_now e2 = alert_now e + MOTION_TIMEOUT + \<epsilon> \<longrightarrow>
            fst (trigger_alert e2 m2 (snd (trigger_alert e m a))))"
  using assms by (auto simp: trigger_alert_def Let_def)

theorem alert_gate_debounce_witness:
  "fst (trigger_alert \<lparr>alert_now = 100, say_raises = False\<rparr> ''Motion detected!''
      (working_alerts 0)) \<and>
   snd (trigger_alert \<lparr>alert_now = 100, say_raises = False\<rparr> ''Motion detected!''
      (working_alerts 0)) = (working_alerts 0)\<lparr>last_alert_time := 100\<rparr> \<and>
   \<not> fst (trigger_alert \<lparr>alert_now = 109, say_raises = False\<rparr> ''Motion detected!''
      (snd (trigger_alert \<lparr>alert_now = 100, say_raises = False\<rparr> ''Motion detected!''
        (working_alerts 0)))) \<and>
   fst (trigger_alert \<lparr>alert_now = 110.5, say_raises = False\<rparr> ''Motion detected!''
      (snd (trigger_alert \<lparr>alert_now = 100, say_raises = False\<rparr> ''Motion detected!''
        (working_alerts 0))))"
  using alert_gate_debounce [of "working_alerts 0" "\<lparr>alert_now = 100, say_raises = False\<rparr>"
      "''Motion detected!''" "\<lparr>alert_now = 109, say_raises = False\<rparr>" "''Motion detected!''"]
    alert_gate_debounce [of "working_alerts 0" "\<lparr>alert_now = 100, say_raises = False\<rparr>"
      "''Motion detected!''" "\<lparr>alert_now = 110.5, say_raises = False\<rparr>"
      "''Motion detected!''" "0.5"]
  by (simp add: working_alerts_def MOTION_TIMEOUT_def trigger_alert_def)

text \<open>
  Claim C10. If the delivery inside trigger_alert raises, the call returns false and
  leaves the state, last_alert_time included, unchanged; so a following call whose
  elapsed time since the unchanged last_alert_time exceeds MOTION_TIMEOUT, with the
  engine present and the delivery not raising, returns true and records its clock
  reading.
\<close>

theorem failed_alert_keeps_window:
  assumes "say_raises e" 
  shows "trigger_alert e m a = (False, a) \<and>
         (tts_engine a \<noteq> None \<and> \<not> say_raises e2 \<and>
          MOTION_TIMEOUT < alert_now e2 - last_alert_time a \<longrightarrow>
            trigger_alert e2 m2 (snd (trigger_alert e m a)) =
              (True, a\<lparr>last_alert_time := alert_now e2\<rparr>))"
  using assms by (auto simp: trigger_alert_def Let_def)

theorem failed_alert_keeps_window_witness:
  "trigger_alert \<lparr>alert_now = 100, say_raises = True\<rparr> ''Motion detected!'' (working_alerts 0)
     = (False, working_alerts 0) \<and>
   trigger_alert \<lparr>alert_now = 101, say_raises = False\<rparr> ''Motion detected!''
      (snd (trigger_alert \<lparr>alert_now = 100, say_raises = True\<rparr> ''Motion detected!''
         (working_alerts 0))) = (True, (working_alerts 0)\<lparr>last_alert_time := 101\<rparr>)"
  using failed_alert_keeps_window [of "\<lparr>alert_now = 100, say_raises = True\<rparr>"
      "''Motion detected!''" "working_alerts 0" "\<lparr>alert_now = 101, say_raises = False\<rparr>"
      "''Motion detected!''"]
  by (simp add: working_alerts_def MOTION_TIMEOUT_def trigger_alert_def)

end
